theory Spec2Isabelle
  imports Complex_Main "HOL-Library.Sublist" "HOL-Library.AList"
begin

section \<open>The file system, the log and the external programs\<close>

text \<open>
  The script \<^verbatim>\<open>download_refseq_cds_gff.py\<close> is glue code: it runs an external
  program, parses its output, unpacks an archive and moves files. Its effects are modelled
  by explicit state passing over a \<open>world\<close>: the file system, the list of commands
  handed to \<^verbatim>\<open>subprocess.run\<close> so far, and the records written to the logger.

  A path is the list of its components, relative to the working directory of the process;
  \<open>[]\<close> is the working directory itself, which always exists. The world of the model
  is this directory and what lies below it. A name the script builds
  (\<^verbatim>\<open>temp_{family}\<close>, \<^verbatim>\<open>refseq_{family}_chromosome_data.zip\<close>,
  \<^verbatim>\<open>{species}_{family}.fna\<close>) becomes a path by \<open>os_path\<close>, which cuts it
  at every slash, as \<^verbatim>\<open>pathlib\<close> and the operating system do. Symbolic links and
  permissions are not modelled, and no string holds a NUL character.

  The file system is an association list from paths to nodes. The entries of a directory
  are enumerated (\<^verbatim>\<open>os.scandir\<close>) in the order in which the list holds them.
\<close>

type_synonym path = "string list"

datatype node =
    Dir
  | File string
  | ZipFile "(path \<times> node) list"
    \<comment> \<open>a regular file whose bytes are a valid zip archive with these members\<close>

type_synonym filesystem = "(path \<times> node) list"

datatype level = INFO | WARNING | ERROR

datatype pyerror =
    FileNotFoundError
  | FileExistsError
  | NotADirectoryError
  | IsADirectoryError
  | PermissionError
  | ShutilError
  | BadZipFile
  | CalledProcessError int string
  | JSONDecodeError
  | AttributeError
  | TypeError
  | UnicodeDecodeError
  | OSError
  | SystemExit nat

record world =
  fs :: filesystem
  calls :: "string list list"
  logged :: "(level \<times> string) list"

type_synonym 'a io = "world \<Rightarrow> (pyerror + 'a) \<times> world"

definition pure :: "'a \<Rightarrow> 'a io" where
  "pure x = (\<lambda>w. (Inr x, w))"

definition raise :: "pyerror \<Rightarrow> 'a io" where
  "raise e = (\<lambda>w. (Inl e, w))"

definition bind :: "'a io \<Rightarrow> ('a \<Rightarrow> 'b io) \<Rightarrow> 'b io" where
  "bind m k = (\<lambda>w. case m w of (Inl e, w') \<Rightarrow> (Inl e, w') | (Inr x, w') \<Rightarrow> k x w')"

definition gets :: "(world \<Rightarrow> 'a) \<Rightarrow> 'a io" where
  "gets f = (\<lambda>w. (Inr (f w), w))"

definition set_fs :: "filesystem \<Rightarrow> unit io" where
  "set_fs f = (\<lambda>w. (Inr (), w\<lparr>fs := f\<rparr>))"

text \<open>
  \<^verbatim>\<open>try: m except ...: h\<close>. The handler answers \<open>None\<close> for an exception its
  \<^verbatim>\<open>except\<close> clause does not name, which then propagates. What the body did to the
  world before it raised stays done.
\<close>

definition try_except :: "'a io \<Rightarrow> (pyerror \<Rightarrow> 'a io option) \<Rightarrow> 'a io" where
  "try_except m h =
     (\<lambda>w. case m w of
        (Inl e, w') \<Rightarrow> (case h e of None \<Rightarrow> (Inl e, w') | Some k \<Rightarrow> k w')
      | (Inr x, w') \<Rightarrow> (Inr x, w'))"

primrec for_each :: "'a list \<Rightarrow> ('a \<Rightarrow> unit io) \<Rightarrow> unit io" where
  "for_each [] body = pure ()"
| "for_each (x # xs) body = bind (body x) (\<lambda>_. for_each xs body)"

text \<open>
  The logger: a record is its level and the format string of the source; the values
  interpolated into the string are not rendered.
\<close>

definition logger_info :: "string \<Rightarrow> unit io" where
  "logger_info msg = (\<lambda>w. (Inr (), w\<lparr>logged := logged w @ [(INFO, msg)]\<rparr>))"

definition logger_warning :: "string \<Rightarrow> unit io" where
  "logger_warning msg = (\<lambda>w. (Inr (), w\<lparr>logged := logged w @ [(WARNING, msg)]\<rparr>))"

definition logger_error :: "string \<Rightarrow> unit io" where
  "logger_error msg = (\<lambda>w. (Inr (), w\<lparr>logged := logged w @ [(ERROR, msg)]\<rparr>))"

subsection \<open>Paths and file-system primitives\<close>

text \<open>
  \<^verbatim>\<open>name.split('/')\<close>, and the path a name denotes: its components, without the
  empty ones and without \<^verbatim>\<open>.\<close> (so \<^verbatim>\<open>a//b\<close> and \<^verbatim>\<open>./a/b\<close> are
  \<^verbatim>\<open>a/b\<close>). A leading slash and the component \<^verbatim>\<open>..\<close> lead out of the working
  directory, where the model has nothing. A name without a slash is one component.
\<close>

fun split_slash :: "string \<Rightarrow> string list" where
  "split_slash [] = [[]]"
| "split_slash (c # cs) =
     (let rest = split_slash cs in
      if c = CHR ''/'' then [] # rest else (c # hd rest) # tl rest)"

definition os_path :: "string \<Rightarrow> path" where
  "os_path name = [c \<leftarrow> split_slash name. c \<noteq> [] \<and> c \<noteq> ''.'']"

definition plain_name :: "string \<Rightarrow> bool" where
  "plain_name s = (CHR ''/'' \<notin> set s)"

definition fs_lookup :: "filesystem \<Rightarrow> path \<Rightarrow> node option" where
  "fs_lookup f p = (if p = [] then Some Dir else map_of f p)"

definition os_path_exists :: "filesystem \<Rightarrow> path \<Rightarrow> bool" where
  "os_path_exists f p = (fs_lookup f p \<noteq> None)"

definition os_path_isdir :: "filesystem \<Rightarrow> path \<Rightarrow> bool" where
  "os_path_isdir f p = (fs_lookup f p = Some Dir)"

definition path_is_file :: "filesystem \<Rightarrow> path \<Rightarrow> bool" where
  "path_is_file f p = (os_path_exists f p \<and> \<not> os_path_isdir f p)"

text \<open>\<^verbatim>\<open>os.mkdir\<close>: the parent must be a directory and the path must be new.\<close>

definition os_mkdir :: "path \<Rightarrow> unit io" where
  "os_mkdir p =
     bind (gets fs) (\<lambda>f.
       if os_path_exists f p then raise FileExistsError
       else case fs_lookup f (butlast p) of
              None \<Rightarrow> raise FileNotFoundError
            | Some Dir \<Rightarrow> set_fs (f @ [(p, Dir)])
            | Some _ \<Rightarrow> raise NotADirectoryError)"

text \<open>
  \<^verbatim>\<open>Path.mkdir(exist_ok=True)\<close>, without \<^verbatim>\<open>parents=True\<close>: a missing parent
  raises; any other error of \<^verbatim>\<open>os.mkdir\<close> is swallowed when the path is a directory.
\<close>

definition path_mkdir_exist_ok :: "path \<Rightarrow> unit io" where
  "path_mkdir_exist_ok p =
     (\<lambda>w. case os_mkdir p w of
        (Inl e, w') \<Rightarrow>
          if e \<noteq> FileNotFoundError \<and> os_path_isdir (fs w') p then (Inr (), w')
          else (Inl e, w')
      | (Inr u, w') \<Rightarrow> (Inr u, w'))"

text \<open>\<^verbatim>\<open>os.makedirs(name)\<close> with \<^verbatim>\<open>exist_ok=False\<close>.\<close>

function os_makedirs :: "path \<Rightarrow> unit io" where
  "os_makedirs name w =
     (if name \<noteq> [] \<and> butlast name \<noteq> [] \<and> \<not> os_path_exists (fs w) (butlast name) then
        (case os_makedirs (butlast name) w of
           (Inl e, w') \<Rightarrow> if e = FileExistsError then os_mkdir name w' else (Inl e, w')
         | (Inr u, w') \<Rightarrow> os_mkdir name w')
      else os_mkdir name w)"
  by pat_completeness auto
termination
  by (relation "measure (\<lambda>(name, w). length name)") auto

declare os_makedirs.simps [simp del]

text \<open>\<^verbatim>\<open>open(p, "wb")\<close> followed by writing the content and closing.\<close>

definition open_write :: "path \<Rightarrow> node \<Rightarrow> unit io" where
  "open_write p content =
     bind (gets fs) (\<lambda>f.
       if os_path_isdir f p then raise IsADirectoryError
       else case fs_lookup f (butlast p) of
              None \<Rightarrow> raise FileNotFoundError
            | Some Dir \<Rightarrow> set_fs (AList.update p content f)
            | Some _ \<Rightarrow> raise NotADirectoryError)"

text \<open>\<^verbatim>\<open>os.remove\<close> and \<^verbatim>\<open>shutil.rmtree\<close>.\<close>

definition os_remove :: "path \<Rightarrow> unit io" where
  "os_remove p =
     bind (gets fs) (\<lambda>f.
       case fs_lookup f p of
         None \<Rightarrow> raise FileNotFoundError
       | Some Dir \<Rightarrow> raise IsADirectoryError
       | Some _ \<Rightarrow> set_fs (AList.delete p f))"

definition shutil_rmtree :: "path \<Rightarrow> unit io" where
  "shutil_rmtree p =
     bind (gets fs) (\<lambda>f.
       case fs_lookup f p of
         None \<Rightarrow> raise FileNotFoundError
       | Some Dir \<Rightarrow> set_fs (filter (\<lambda>(q, n). \<not> prefix p q) f)
       | Some _ \<Rightarrow> raise NotADirectoryError)"

text \<open>
  \<^verbatim>\<open>os.rename(src, dst)\<close> once it is known to succeed: the entry at \<open>dst\<close> (a
  regular file, if there is one) is replaced, and \<open>src\<close> with everything below it
  reappears at \<open>dst\<close>.
\<close>

definition fs_rename :: "filesystem \<Rightarrow> path \<Rightarrow> path \<Rightarrow> filesystem" where
  "fs_rename f src dst =
     map (\<lambda>(q, n). if prefix src q then (dst @ drop (length src) q, n) else (q, n))
       (AList.delete dst f)"

text \<open>
  \<^verbatim>\<open>shutil.move(src, dst)\<close>. A destination that is a directory receives the source
  under its own base name, unless that name is taken there. Otherwise the source is renamed,
  which replaces a regular file at the destination. A directory is never replaced; a source
  directory cannot go below itself, and its missing parents are created (the fallback to
  \<^verbatim>\<open>copytree\<close>). A missing source raises.
\<close>

definition shutil_move :: "path \<Rightarrow> path \<Rightarrow> unit io" where
  "shutil_move src dst =
     bind (gets fs) (\<lambda>f.
       if os_path_isdir f dst \<and> src = dst then pure ()
       else
         let real_dst = (if os_path_isdir f dst then dst @ [last src] else dst) in
         if os_path_isdir f dst \<and> os_path_exists f real_dst then raise ShutilError
         else
           (case fs_lookup f src of
              None \<Rightarrow> raise FileNotFoundError
            | Some Dir \<Rightarrow>
                if prefix src dst then raise ShutilError
                else if os_path_exists f real_dst then raise FileExistsError
                else
                  bind (if os_path_exists f (butlast real_dst) then pure ()
                        else os_makedirs (butlast real_dst)) (\<lambda>_.
                  bind (gets fs) (\<lambda>f'.
                    if os_path_isdir f' (butlast real_dst)
                    then set_fs (fs_rename f' src real_dst)
                    else raise NotADirectoryError))
            | Some _ \<Rightarrow>
                if real_dst = src then pure ()
                else
                  (case fs_lookup f (butlast real_dst) of
                     None \<Rightarrow> raise FileNotFoundError
                   | Some Dir \<Rightarrow> set_fs (fs_rename f src real_dst)
                   | Some _ \<Rightarrow> raise NotADirectoryError)))"

subsection \<open>Zip archives\<close>

text \<open>
  \<^verbatim>\<open>zipfile.ZipFile(p, 'r')\<close> gives the members of the archive. A member is its
  sanitised path (\<^verbatim>\<open>zipfile\<close> drops empty, \<^verbatim>\<open>.\<close> and \<^verbatim>\<open>..\<close> components)
  with \<open>Dir\<close> for a directory entry and the content for a file entry.
\<close>

definition zipfile_open :: "path \<Rightarrow> (path \<times> node) list io" where
  "zipfile_open p =
     bind (gets fs) (\<lambda>f.
       case fs_lookup f p of
         None \<Rightarrow> raise FileNotFoundError
       | Some Dir \<Rightarrow> raise IsADirectoryError
       | Some (File bytes) \<Rightarrow> raise BadZipFile
       | Some (ZipFile members) \<Rightarrow> pure members)"

text \<open>
  \<^verbatim>\<open>ZipFile._extract_member\<close>: missing upper directories are created, a directory entry
  is made unless it is there, a file entry is written over whatever regular file is there.
\<close>

definition zipfile_extract_member :: "path \<Rightarrow> path \<times> node \<Rightarrow> unit io" where
  "zipfile_extract_member target member =
     (let targetpath = target @ fst member; upperdirs = butlast targetpath in
      bind (gets fs) (\<lambda>f.
      bind (if upperdirs \<noteq> [] \<and> \<not> os_path_exists f upperdirs then os_makedirs upperdirs
            else pure ()) (\<lambda>_.
      case snd member of
        Dir \<Rightarrow>
          bind (gets fs) (\<lambda>f'.
            if \<not> os_path_isdir f' targetpath then os_mkdir targetpath else pure ())
      | content \<Rightarrow> open_write targetpath content)))"

text \<open>
  \<^verbatim>\<open>with zipfile.ZipFile(zip_filename, 'r') as zip_ref: zip_ref.extractall(target)\<close>.
  Nothing creates \<open>target\<close> itself when the archive has no member.
\<close>

definition zipfile_extractall :: "path \<Rightarrow> path \<Rightarrow> unit io" where
  "zipfile_extractall zip_path target =
     bind (zipfile_open zip_path) (\<lambda>members.
       for_each members (zipfile_extract_member target))"

subsection \<open>Globbing\<close>

text \<open>
  \<^verbatim>\<open>fnmatch\<close> for patterns of literal characters and \<^verbatim>\<open>*\<close>, the only ones the
  script uses.
\<close>

fun fnmatch :: "string \<Rightarrow> string \<Rightarrow> bool" where
  "fnmatch [] [] = True"
| "fnmatch (c # cs) [] = False"
| "fnmatch [] (p # ps) = (p = CHR ''*'' \<and> fnmatch [] ps)"
| "fnmatch (c # cs) (p # ps) =
     (if p = CHR ''*'' then fnmatch (c # cs) ps \<or> fnmatch cs (p # ps)
      else c = p \<and> fnmatch cs ps)"

text \<open>\<^verbatim>\<open>os.scandir(dir)\<close>: the entries of a directory, in the order of the listing.\<close>

definition scandir :: "filesystem \<Rightarrow> path \<Rightarrow> (path \<times> node) list" where
  "scandir f dir = [c \<leftarrow> f. fst c \<noteq> [] \<and> butlast (fst c) = dir]"

text \<open>
  The walk of \<^verbatim>\<open>Path.rglob\<close>: the entries of the directory whose name matches
  (directories are entries too), then the same for each of its subdirectories in turn, so a
  directory's own matches come before those further down.
\<close>

function rglob_walk :: "filesystem \<Rightarrow> string \<Rightarrow> path \<Rightarrow> path list" where
  "rglob_walk f pattern dir =
     [q \<leftarrow> map fst (scandir f dir). fnmatch (last q) pattern] @
     concat (map (\<lambda>c. rglob_walk f pattern (fst c)) [c \<leftarrow> scandir f dir. snd c = Dir])"
  by pat_completeness auto
termination
proof (relation "measure (\<lambda>(f, pattern, dir). length [c \<leftarrow> f. strict_prefix dir (fst c)])")
  show "wf (measure (\<lambda>(f, pattern, dir). length [c \<leftarrow> f. strict_prefix dir (fst c)]))"
    by simp
next
  fix f :: filesystem and pattern :: string and dir :: path and c :: "path \<times> node"
  assume "c \<in> set [c \<leftarrow> scandir f dir. snd c = Dir]"
  then have c: "c \<in> set f" "fst c \<noteq> []" "butlast (fst c) = dir"
    by (simp_all add: scandir_def)
  then have below: "strict_prefix dir (fst c)"
    by (metis append_butlast_last_id prefix_def strict_prefix_def self_append_conv
        not_Cons_self2 append_eq_append_conv)
  have sub: "[x \<leftarrow> f. strict_prefix (fst c) (fst x)] =
      [x \<leftarrow> [x \<leftarrow> f. strict_prefix dir (fst x)]. strict_prefix (fst c) (fst x)]"
    using below by (auto simp: strict_prefix_def intro!: filter_cong dest: prefix_order.trans)
  have "c \<in> set [x \<leftarrow> f. strict_prefix dir (fst x)]"
    using c below by simp
  then have "length [x \<leftarrow> [x \<leftarrow> f. strict_prefix dir (fst x)]. strict_prefix (fst c) (fst x)]
      < length [x \<leftarrow> f. strict_prefix dir (fst x)]"
    by (rule length_filter_less) simp
  then show "((f, pattern, fst c), (f, pattern, dir))
      \<in> measure (\<lambda>(f, pattern, dir). length [c \<leftarrow> f. strict_prefix dir (fst c)])"
    by (simp add: sub)
qed

declare rglob_walk.simps [simp del]

text \<open>
  \<^verbatim>\<open>list(base.rglob(pattern))\<close>. Nothing is found below a path that is not a
  directory.
\<close>

definition rglob :: "filesystem \<Rightarrow> path \<Rightarrow> string \<Rightarrow> path list" where
  "rglob f base pattern = (if os_path_isdir f base then rglob_walk f pattern base else [])"

definition path_rglob :: "path \<Rightarrow> string \<Rightarrow> path list io" where
  "path_rglob base pattern = gets (\<lambda>w. rglob (fs w) base pattern)"

subsection \<open>External programs and JSON\<close>

text \<open>
  What running a command does is a parameter of the model: given the argument vector and
  the file system, the program cannot be started (\<^verbatim>\<open>subprocess\<close> raises the
  \<^verbatim>\<open>OSError\<close> of the error number), or it runs and leaves a file system, and then
  either what it printed is not text in the encoding of the locale, or it is: then there are
  a return code, the standard output and the standard error. So is the JSON decoder
  \<^verbatim>\<open>json.loads\<close>, which answers \<open>None\<close> where it raises \<^verbatim>\<open>JSONDecodeError\<close>.
\<close>

datatype json =
    JNull
  | JBool bool
  | JInt int
  | JFloat real
  | JNaN
  | JInfinity bool
  | JString string
  | JArray "json list"
  | JObject "(string \<times> json) list"

datatype launch_error = ENOENT | EACCES | ENOTDIR | ENOEXEC

fun os_error :: "launch_error \<Rightarrow> pyerror" where
  "os_error ENOENT = FileNotFoundError"
| "os_error EACCES = PermissionError"
| "os_error ENOTDIR = NotADirectoryError"
| "os_error ENOEXEC = OSError"

datatype proc =
    LaunchError launch_error
  | Undecodable filesystem
  | Completed int string string filesystem

record env =
  popen :: "string list \<Rightarrow> filesystem \<Rightarrow> proc"
  json_loads :: "string \<Rightarrow> json option"

text \<open>
  \<^verbatim>\<open>subprocess.run(cmd, capture_output=True, text=True, check=True)\<close>. The output is
  decoded while it is collected, before the return code is looked at, so output that does
  not decode raises \<^verbatim>\<open>UnicodeDecodeError\<close> whatever the code.
\<close>

definition subprocess_run :: "env \<Rightarrow> string list \<Rightarrow> (string \<times> string) io" where
  "subprocess_run e cmd =
     (\<lambda>w. let w1 = w\<lparr>calls := calls w @ [cmd]\<rparr> in
        case popen e cmd (fs w) of
          LaunchError errno \<Rightarrow> (Inl (os_error errno), w1)
        | Undecodable f' \<Rightarrow> (Inl UnicodeDecodeError, w1\<lparr>fs := f'\<rparr>)
        | Completed returncode out err f' \<Rightarrow>
            if returncode \<noteq> 0 then (Inl (CalledProcessError returncode err), w1\<lparr>fs := f'\<rparr>)
            else (Inr (out, err), w1\<lparr>fs := f'\<rparr>))"

text \<open>\<^verbatim>\<open>data.get(key, default)\<close>: only a decoded object has the method.\<close>

fun dict_get :: "json \<Rightarrow> string \<Rightarrow> json \<Rightarrow> pyerror + json" where
  "dict_get (JObject kvs) key dflt = Inr (case map_of kvs key of None \<Rightarrow> dflt | Some v \<Rightarrow> v)"
| "dict_get _ key dflt = Inl AttributeError"

text \<open>\<^verbatim>\<open>value > 0\<close> on a decoded value: numbers and booleans compare, the rest raise.\<close>

fun py_gt_zero :: "json \<Rightarrow> pyerror + bool" where
  "py_gt_zero (JInt n) = Inr (n > 0)"
| "py_gt_zero (JBool b) = Inr b"
| "py_gt_zero (JFloat x) = Inr (x > 0)"
| "py_gt_zero JNaN = Inr False"
| "py_gt_zero (JInfinity positive) = Inr positive"
| "py_gt_zero _ = Inl TypeError"

definition lift_result :: "pyerror + 'a \<Rightarrow> 'a io" where
  "lift_result r = (case r of Inl e \<Rightarrow> raise e | Inr x \<Rightarrow> pure x)"

primrec join :: "string \<Rightarrow> string list \<Rightarrow> string" where
  "join sep [] = []"
| "join sep (x # xs) = (if xs = [] then x else x @ sep @ join sep xs)"

section \<open>The downloader\<close>

definition DATASETS_TOOL :: string where
  "DATASETS_TOOL = ''/home5/ibirchl/Bioinformatics_tools/datasets''"

record downloader =
  output_dir :: path
  datasets_tool :: string
  cds_dir :: path
  gff_dir :: path

text \<open>
  \<^verbatim>\<open>RefSeqDataDownloader.__init__\<close>. The output directory arrives as the components of
  \<^verbatim>\<open>Path(output_dir)\<close>.
\<close>

definition RefSeqDataDownloader_init :: "path \<Rightarrow> string \<Rightarrow> downloader io" where
  "RefSeqDataDownloader_init out tool =
     (let self = \<lparr>output_dir = out, datasets_tool = tool,
                  cds_dir = out @ [''cds_files''], gff_dir = out @ [''gff_files'']\<rparr> in
      bind (path_mkdir_exist_ok (output_dir self)) (\<lambda>_.
      bind (path_mkdir_exist_ok (cds_dir self)) (\<lambda>_.
      bind (path_mkdir_exist_ok (gff_dir self)) (\<lambda>_.
      pure self))))"

definition check_datasets_tool :: "env \<Rightarrow> downloader \<Rightarrow> bool io" where
  "check_datasets_tool e self =
     try_except
       (bind (subprocess_run e [datasets_tool self, ''--version'']) (\<lambda>result.
        bind (logger_info ''NCBI datasets tool version: {result.stdout.strip()}'') (\<lambda>_.
        pure True)))
       (\<lambda>err. case err of
          CalledProcessError rc stderr \<Rightarrow>
            Some (bind (logger_error ''Error accessing datasets tool: {e}'') (\<lambda>_. pure False))
        | FileNotFoundError \<Rightarrow>
            Some (bind (logger_error ''Error accessing datasets tool: {e}'') (\<lambda>_. pure False))
        | _ \<Rightarrow> None)"

definition preview_cmd :: "downloader \<Rightarrow> string \<Rightarrow> string list" where
  "preview_cmd self family =
     [datasets_tool self, ''download'', ''genome'', ''taxon'', family,
      ''--include'', ''cds,gff3'',
      ''--assembly-level'', ''chromosome'',
      ''--preview'']"

definition get_available_species :: "env \<Rightarrow> downloader \<Rightarrow> string \<Rightarrow> string list io" where
  "get_available_species e self family =
     bind (logger_info
       ''Searching for available {family} species with chromosome-level assemblies...'') (\<lambda>_.
     try_except
       (bind (subprocess_run e (preview_cmd self family)) (\<lambda>result.
          if sublist ''record_count'' (fst result) then
            bind (lift_result (case json_loads e (fst result) of
                                 None \<Rightarrow> Inl JSONDecodeError | Some d \<Rightarrow> Inr d)) (\<lambda>data.
            bind (lift_result (dict_get data ''record_count'' (JInt 0))) (\<lambda>record_count.
            bind (logger_info (''Found {record_count} {family} genomes with chromosome-level ''
                    @ ''assemblies and CDS/GFF annotations'')) (\<lambda>_.
            bind (lift_result (py_gt_zero record_count)) (\<lambda>positive.
              if positive then pure [family]
              else
                bind (logger_warning
                  ''No {family} genomes with chromosome-level assemblies found'') (\<lambda>_.
                pure [])))))
          else
            bind (logger_warning
              ''No {family} genomes with chromosome-level assemblies found'') (\<lambda>_.
            pure [])))
       (\<lambda>err. case err of
          CalledProcessError rc stderr \<Rightarrow>
            Some (bind (logger_error ''Error searching for {family} species: {e}'') (\<lambda>_.
                  pure []))
        | _ \<Rightarrow> None))"

definition include_param :: "bool \<Rightarrow> bool \<Rightarrow> string" where
  "include_param include_cds include_gff =
     (let include_files = (if include_cds then [''cds''] else []) @
                          (if include_gff then [''gff3''] else []);
          include_files = (if include_files = [] then [''cds'', ''gff3''] else include_files)
      in join '','' include_files)"

definition zip_name :: "string \<Rightarrow> string" where
  "zip_name family = ''refseq_'' @ family @ ''_chromosome_data.zip''"

definition download_cmd :: "downloader \<Rightarrow> string \<Rightarrow> bool \<Rightarrow> bool \<Rightarrow> string list" where
  "download_cmd self family include_cds include_gff =
     [datasets_tool self, ''download'', ''genome'', ''taxon'', family,
      ''--include'', include_param include_cds include_gff,
      ''--assembly-level'', ''chromosome'',
      ''--filename'', zip_name family]"

definition download_genome_data ::
  "env \<Rightarrow> downloader \<Rightarrow> string \<Rightarrow> bool \<Rightarrow> bool \<Rightarrow> string option io" where
  "download_genome_data e self family include_cds include_gff =
     bind (logger_info
       ''Downloading genome data for {family} (chromosome-level assemblies only)...'') (\<lambda>_.
     try_except
       (bind (logger_info ''Running command: {' '.join(cmd)}'') (\<lambda>_.
        bind (subprocess_run e (download_cmd self family include_cds include_gff)) (\<lambda>result.
        bind (logger_info ''Download completed for {family}'') (\<lambda>_.
        pure (Some (zip_name family))))))
       (\<lambda>err. case err of
          CalledProcessError rc stderr \<Rightarrow>
            Some (bind (logger_error ''Error downloading data for {family}: {e}'') (\<lambda>_.
                  bind (logger_error ''stderr: {e.stderr}'') (\<lambda>_.
                  pure None)))
        | _ \<Rightarrow> None))"

subsection \<open>Extracting and organising\<close>

definition temp_name :: "string \<Rightarrow> string" where
  "temp_name family = ''temp_'' @ family"

text \<open>\<^verbatim>\<open>file.parent.name\<close>; the parent of a single component has the empty name.\<close>

definition parent_name :: "path \<Rightarrow> string" where
  "parent_name p = (if butlast p = [] then [] else last (butlast p))"

text \<open>Lines 136 to 142: the coding-sequence files are listed, then moved one by one.\<close>

definition move_cds_files :: "downloader \<Rightarrow> string \<Rightarrow> path \<Rightarrow> path list io" where
  "move_cds_files self family temp_dir =
     bind (path_rglob temp_dir ''cds_from_genomic.fna'') (\<lambda>cds_files.
     bind (for_each cds_files (\<lambda>cds_file.
             let species_name = parent_name cds_file;
                 new_name = species_name @ ''_'' @ family @ ''.fna'' in
             bind (shutil_move cds_file (cds_dir self @ os_path new_name)) (\<lambda>_.
             logger_info ''Moved CDS file: {new_name}''))) (\<lambda>_.
     pure cds_files))"

text \<open>Lines 144 to 150: the same for the gene-feature files.\<close>

definition move_gff_files :: "downloader \<Rightarrow> string \<Rightarrow> path \<Rightarrow> path list io" where
  "move_gff_files self family temp_dir =
     bind (path_rglob temp_dir ''*.gff'') (\<lambda>gff_files.
     bind (for_each gff_files (\<lambda>gff_file.
             let species_name = parent_name gff_file;
                 new_name = species_name @ ''_'' @ family @ ''.gff'' in
             bind (shutil_move gff_file (gff_dir self @ os_path new_name)) (\<lambda>_.
             logger_info ''Moved GFF file: {new_name}''))) (\<lambda>_.
     pure gff_files))"

text \<open>Lines 155 to 165: the warning when nothing matched, and the listing of what is there.\<close>

definition report_no_files :: "string \<Rightarrow> path \<Rightarrow> unit io" where
  "report_no_files family temp_dir =
     bind (logger_warning ''No CDS or GFF files found for {family}. This may indicate:'') (\<lambda>_.
     bind (logger_warning ''  - The genome assemblies don't have gene annotations'') (\<lambda>_.
     bind (logger_warning ''  - Annotations are in a different format'') (\<lambda>_.
     bind (logger_warning ''  - Only raw genome sequences are available'') (\<lambda>_.
     bind (path_rglob temp_dir ''*'') (\<lambda>all_files.
     bind (logger_info ''Available files in {family} dataset:'') (\<lambda>_.
     for_each all_files (\<lambda>file_path.
       bind (gets fs) (\<lambda>f.
         if path_is_file f file_path
         then logger_info ''  - {file_path.relative_to(temp_dir)}''
         else pure ()))))))))"

text \<open>Lines 129 to 173: the body of the \<^verbatim>\<open>try\<close> block.\<close>

definition extract_and_organize_try :: "downloader \<Rightarrow> string \<Rightarrow> string \<Rightarrow> bool io" where
  "extract_and_organize_try self zip_filename family =
     bind (zipfile_extractall (os_path zip_filename) (os_path (temp_name family))) (\<lambda>_.
     let temp_dir = os_path (temp_name family) in
     bind (move_cds_files self family temp_dir) (\<lambda>cds_files.
     bind (move_gff_files self family temp_dir) (\<lambda>gff_files.
     let total_files = length cds_files + length gff_files in
     bind (if total_files = 0 then report_no_files family temp_dir else pure ()) (\<lambda>_.
     bind (shutil_rmtree temp_dir) (\<lambda>_.
     bind (os_remove (os_path zip_filename)) (\<lambda>_.
     pure (total_files > 0)))))))"

text \<open>\<^verbatim>\<open>except Exception\<close> catches everything the model can raise but \<^verbatim>\<open>SystemExit\<close>.\<close>

definition is_Exception :: "pyerror \<Rightarrow> bool" where
  "is_Exception err = (case err of SystemExit status \<Rightarrow> False | _ \<Rightarrow> True)"

definition extract_and_organize_files :: "downloader \<Rightarrow> string \<Rightarrow> string \<Rightarrow> bool io" where
  "extract_and_organize_files self zip_filename family =
     bind (logger_info ''Extracting and organizing files from {zip_filename}...'') (\<lambda>_.
     bind (gets fs) (\<lambda>f.
       if \<not> os_path_exists f (os_path zip_filename) then
         bind (logger_error ''Zip file {zip_filename} not found'') (\<lambda>_.
         pure False)
       else
         try_except (extract_and_organize_try self zip_filename family)
           (\<lambda>err. if is_Exception err
                   then Some (bind (logger_error ''Error extracting files: {e}'') (\<lambda>_.
                              pure False))
                   else None)))"

subsection \<open>The orchestrator and the command line\<close>

text \<open>
  Lines 190 to 204: the loop over the taxa, with its counter. \<^verbatim>\<open>if zip_filename:\<close>
  is false for \<^verbatim>\<open>None\<close> and for the empty string.
\<close>

primrec process_taxa ::
  "env \<Rightarrow> downloader \<Rightarrow> bool \<Rightarrow> bool \<Rightarrow> string list \<Rightarrow> nat \<Rightarrow> nat io" where
  "process_taxa e self include_cds include_gff [] = (\<lambda>success_count. pure success_count)"
| "process_taxa e self include_cds include_gff (taxon # rest) = (\<lambda>success_count.
     bind (logger_info ''Processing {taxon}...'') (\<lambda>_.
     bind (download_genome_data e self taxon include_cds include_gff) (\<lambda>zip_filename.
     bind (if zip_filename \<noteq> None \<and> zip_filename \<noteq> Some [] then
             bind (extract_and_organize_files self (the zip_filename) taxon) (\<lambda>ok.
               if ok then
                 bind (logger_info ''Successfully processed {taxon}'') (\<lambda>_.
                 pure (success_count + 1))
               else
                 bind (logger_error ''Failed to extract files for {taxon}'') (\<lambda>_.
                 pure success_count))
           else
             bind (logger_error ''Failed to download data for {taxon}'') (\<lambda>_.
             pure success_count)) (\<lambda>success_count.
     process_taxa e self include_cds include_gff rest success_count))))"

definition download_family_data ::
  "env \<Rightarrow> downloader \<Rightarrow> string \<Rightarrow> bool \<Rightarrow> bool \<Rightarrow> bool io" where
  "download_family_data e self family include_cds include_gff =
     bind (get_available_species e self family) (\<lambda>available_species.
       if available_species = [] then
         bind (logger_error ''No {family} species with chromosome-level assemblies found'') (\<lambda>_.
         pure False)
       else
         bind (logger_info (''Found {len(available_species)} {family} taxa with ''
                 @ ''chromosome-level assemblies'')) (\<lambda>_.
         bind (process_taxa e self include_cds include_gff available_species 0) (\<lambda>success_count.
         bind (logger_info
           ''Successfully processed {success_count}/{len(available_species)} taxa'') (\<lambda>_.
         pure (success_count > 0)))))"

record args =
  arg_family :: string
  arg_output_dir :: path
  arg_no_cds :: bool
  arg_no_gff :: bool
  arg_datasets_tool :: string

definition sys_exit :: "nat \<Rightarrow> 'a io" where
  "sys_exit status = raise (SystemExit status)"

definition main :: "env \<Rightarrow> args \<Rightarrow> unit io" where
  "main e a =
     bind (RefSeqDataDownloader_init (arg_output_dir a) (arg_datasets_tool a)) (\<lambda>downloader.
     bind (check_datasets_tool e downloader) (\<lambda>available.
     bind (if \<not> available then
             bind (logger_error ''NCBI datasets tool not available. Please check the path.'') (\<lambda>_.
             sys_exit 1)
           else pure ()) (\<lambda>_.
     let include_cds = \<not> arg_no_cds a;
         include_gff = \<not> arg_no_gff a in
     bind (if \<not> include_cds \<and> \<not> include_gff then
             bind (logger_error ''At least one of CDS or GFF files must be downloaded'') (\<lambda>_.
             sys_exit 1)
           else pure ()) (\<lambda>_.
     bind (logger_info ''Downloading data for family: {args.family}'') (\<lambda>_.
     bind (download_family_data e downloader (arg_family a) include_cds include_gff) (\<lambda>success.
       if success then
         bind (logger_info ''Download process completed successfully!'') (\<lambda>_.
         bind (logger_info ''CDS files saved to: {downloader.cds_dir}'') (\<lambda>_.
         logger_info ''GFF files saved to: {downloader.gff_dir}''))
       else
         bind (logger_error ''Download process failed!'') (\<lambda>_.
         sys_exit 1)))))))"

text \<open>
  The exit status of the process: 0 when \<^verbatim>\<open>main\<close> returns, the argument of
  \<^verbatim>\<open>sys.exit\<close>, and 1 for an exception nobody caught.
\<close>

definition exit_status :: "(pyerror + unit) \<Rightarrow> nat" where
  "exit_status r = (case r of Inr u \<Rightarrow> 0 | Inl (SystemExit status) \<Rightarrow> status | Inl _ \<Rightarrow> 1)"

section \<open>Example worlds\<close>

text \<open>Concrete file systems, tools and command lines on which the theorems are exercised.\<close>

definition empty_world :: world where
  "empty_world = \<lparr>fs = [], calls = [], logged = []\<rparr>"

definition example_downloader :: downloader where
  "example_downloader =
     \<lparr>output_dir = [''refseq_data''], datasets_tool = ''datasets'',
      cds_dir = [''refseq_data'', ''cds_files''], gff_dir = [''refseq_data'', ''gff_files'']\<rparr>"

text \<open>A tool that answers every command with its version and touches no file.\<close>

definition version_only_tool :: env where
  "version_only_tool =
     \<lparr>popen = (\<lambda>cmd f. Completed 0 ''datasets version: 16.4.0'' [] f),
      json_loads = (\<lambda>text. None)\<rparr>"

text \<open>\<^verbatim>\<open>--family gobiidae --no-cds --no-gff --datasets-tool datasets\<close>\<close>

definition both_skipped :: args where
  "both_skipped =
     \<lparr>arg_family = ''gobiidae'', arg_output_dir = [''refseq_data''],
      arg_no_cds = True, arg_no_gff = True, arg_datasets_tool = ''datasets''\<rparr>"

text \<open>A work directory in which the three output directories have been made.\<close>

definition ready_world :: world where
  "ready_world =
     \<lparr>fs = [([''refseq_data''], Dir), ([''refseq_data'', ''cds_files''], Dir),
            ([''refseq_data'', ''gff_files''], Dir)],
      calls = [], logged = []\<rparr>"

text \<open>A decoder that knows the previews of the examples and rejects every other text.\<close>

definition preview_decoder :: "string \<Rightarrow> json option" where
  \<open>preview_decoder text =
     (if text = ''{"record_count": 0}'' then Some (JObject [(''record_count'', JInt 0)])
      else if text = ''{"record_count": 2}'' then Some (JObject [(''record_count'', JInt 2)])
      else None)\<close>

text \<open>A tool whose output holds the marker and is no JSON text.\<close>

definition marker_not_json_tool :: env where
  "marker_not_json_tool =
     \<lparr>popen = (\<lambda>cmd f. Completed 0 ''record_count'' [] f), json_loads = preview_decoder\<rparr>"

text \<open>A tool that returns 1 whatever it is asked.\<close>

definition failing_tool :: env where
  "failing_tool =
     \<lparr>popen = (\<lambda>cmd f. Completed 1 [] ''Error: no genome data'' f),
      json_loads = preview_decoder\<rparr>"

text \<open>A tool that knows of no genome.\<close>

definition zero_records_tool :: env where
  \<open>zero_records_tool =
     \<lparr>popen = (\<lambda>cmd f. Completed 0 ''{"record_count": 0}'' [] f),
      json_loads = preview_decoder\<rparr>\<close>

text \<open>
  The archive of section 8 of the specification, and a tool that previews two genomes and
  writes this archive under the name it is given.
\<close>

definition example_archive :: node where
  "example_archive =
     ZipFile [([''speciesA'', ''cds_from_genomic.fna''], File ''>cds''),
              ([''speciesB'', ''sub'', ''annotation.gff''], File ''##gff-version 3'')]"

definition datasets_mock :: env where
  \<open>datasets_mock =
     \<lparr>popen = (\<lambda>cmd f.
        if last cmd = ''--preview'' then Completed 0 ''{"record_count": 2}'' [] f
        else if ''--filename'' \<in> set cmd
          then Completed 0 [] [] (AList.update (os_path (last cmd)) example_archive f)
        else Completed 0 ''datasets version: 16.4.0'' [] f),
      json_loads = preview_decoder\<rparr>\<close>

text \<open>The work directory after a download that delivered an archive with no member.\<close>

definition empty_archive_world :: world where
  "empty_archive_world =
     \<lparr>fs = [([''refseq_data''], Dir), ([''refseq_data'', ''cds_files''], Dir),
            ([''refseq_data'', ''gff_files''], Dir),
            ([''refseq_gobiidae_chromosome_data.zip''], ZipFile [])],
      calls = [], logged = []\<rparr>"

section \<open>Auxiliary notions\<close>

text \<open>
  A well-formed file system: no path is listed twice, the working directory itself is not
  listed, and the parent of every entry is a directory.
\<close>

definition wf_fs :: "filesystem \<Rightarrow> bool" where
  "wf_fs f = (distinct (map fst f) \<and> [] \<notin> fst ` set f \<and>
              (\<forall>p \<in> fst ` set f. os_path_isdir f (butlast p)))"

text \<open>
  A downloader as \<^verbatim>\<open>__init__\<close> builds it: the two destination directories are the
  subdirectories \<^verbatim>\<open>cds_files\<close> and \<^verbatim>\<open>gff_files\<close> of the output directory.
\<close>

definition constructed :: "downloader \<Rightarrow> bool" where
  "constructed self =
     (cds_dir self = output_dir self @ [''cds_files''] \<and>
      gff_dir self = output_dir self @ [''gff_files''])"

text \<open>The destination of a matched file: the directory, then the new name.\<close>

definition dest_in :: "path \<Rightarrow> string \<Rightarrow> string \<Rightarrow> path \<Rightarrow> path" where
  "dest_in dir family ext file = dir @ os_path (parent_name file @ ''_'' @ family @ ext)"

text \<open>
  What a path holds after the files \<open>srcs\<close> have been moved in this order, each to its
  destination, starting from the lookup function \<open>L\<close>: a destination holds what the last
  file sent there held, a source is gone, any other path is as it was.
\<close>

definition moved ::
  "(path \<Rightarrow> node option) \<Rightarrow> path list \<Rightarrow> (path \<Rightarrow> path) \<Rightarrow> path \<Rightarrow> node option" where
  "moved L srcs dest p =
     (if [s \<leftarrow> srcs. dest s = p] \<noteq> [] then L (last [s \<leftarrow> srcs. dest s = p])
      else if p \<in> set srcs then None else L p)"

text \<open>
  What a path holds when the organizer has finished on the extracted tree \<open>f\<close>: nothing
  below the scratch directory and nothing at the archive; at a destination, what the last
  matched file sent there held; anywhere else, what it held in \<open>f\<close>.
\<close>

definition organized ::
  "downloader \<Rightarrow> string \<Rightarrow> string \<Rightarrow> filesystem \<Rightarrow> path \<Rightarrow> node option" where
  "organized self zip_filename family f p =
     (let temp_dir = os_path (temp_name family);
          to_cds = [s \<leftarrow> rglob f temp_dir ''cds_from_genomic.fna''.
                      dest_in (cds_dir self) family ''.fna'' s = p];
          to_gff = [s \<leftarrow> rglob f temp_dir ''*.gff''.
                      dest_in (gff_dir self) family ''.gff'' s = p]
      in if prefix temp_dir p \<or> p = os_path zip_filename then None
         else if to_cds \<noteq> [] then fs_lookup f (last to_cds)
         else if to_gff \<noteq> [] then fs_lookup f (last to_gff)
         else fs_lookup f p)"

text \<open>Two properties of a step that compose along \<open>bind\<close>.\<close>

definition raises_exceptions_only :: "'a io \<Rightarrow> bool" where
  "raises_exceptions_only m = (\<forall>w e w'. m w = (Inl e, w') \<longrightarrow> is_Exception e)"

definition keeps_calls :: "'a io \<Rightarrow> bool" where
  "keeps_calls m = (\<forall>w. calls (snd (m w)) = calls w)"

text \<open>The walk of \<^verbatim>\<open>rglob\<close> through a list of subdirectories, one after the other.\<close>

definition walk_dirs :: "filesystem \<Rightarrow> string \<Rightarrow> (path \<times> node) list \<Rightarrow> path list" where
  "walk_dirs f pattern cs = concat (map (\<lambda>c. rglob_walk f pattern (fst c)) cs)"

section \<open>Properties\<close>

lemmas io_defs = bind_def pure_def raise_def gets_def set_fs_def try_except_def
  logger_info_def logger_warning_def logger_error_def lift_result_def sys_exit_def

lemmas fs_defs = os_path_exists_def os_path_isdir_def fs_lookup_def path_is_file_def

lemmas prim_defs = os_mkdir_def open_write_def os_remove_def shutil_rmtree_def shutil_move_def
  fs_rename_def zipfile_open_def zipfile_extract_member_def zipfile_extractall_def path_rglob_def
  rglob_def

lemmas organizer_defs = extract_and_organize_files_def extract_and_organize_try_def
  move_cds_files_def move_gff_files_def report_no_files_def is_Exception_def temp_name_def
  parent_name_def

subsection \<open>Only \<^verbatim>\<open>sys.exit\<close> raises \<^verbatim>\<open>SystemExit\<close>\<close>

lemma reo_bind:
  "raises_exceptions_only m \<Longrightarrow> (\<And>x. raises_exceptions_only (k x)) \<Longrightarrow>
   raises_exceptions_only (bind m k)"
  unfolding raises_exceptions_only_def bind_def
  by (auto split: prod.splits sum.splits)

lemma reo_basic:
  "raises_exceptions_only (pure x)"
  "raises_exceptions_only (gets g)"
  "raises_exceptions_only (set_fs f)"
  "raises_exceptions_only (logger_info s)"
  "raises_exceptions_only (logger_warning s)"
  "raises_exceptions_only (logger_error s)"
  by (simp_all add: raises_exceptions_only_def io_defs)

lemma reo_raise: "is_Exception e \<Longrightarrow> raises_exceptions_only (raise e)"
  by (simp add: raises_exceptions_only_def io_defs)

lemma reo_os_mkdir: "raises_exceptions_only (os_mkdir p)"
  unfolding os_mkdir_def
  by (intro reo_bind reo_basic)
     (auto simp: reo_raise reo_basic is_Exception_def split: option.splits node.splits)

lemma reo_path_mkdir: "raises_exceptions_only (path_mkdir_exist_ok p)"
  using reo_os_mkdir [of p]
  unfolding path_mkdir_exist_ok_def raises_exceptions_only_def
  by (auto split: prod.splits sum.splits if_splits)

lemma reo_init: "raises_exceptions_only (RefSeqDataDownloader_init out tool)"
  unfolding RefSeqDataDownloader_init_def Let_def
  by (intro reo_bind reo_path_mkdir reo_basic)

lemma os_error_not_exit [simp]: "os_error x \<noteq> SystemExit n"
  by (cases x) simp_all

lemma os_error_not_called [simp]: "os_error x \<noteq> CalledProcessError returncode err"
  by (cases x) simp_all

lemma reo_check: "raises_exceptions_only (check_datasets_tool e self)"
  unfolding check_datasets_tool_def raises_exceptions_only_def
  by (auto simp: io_defs subprocess_run_def Let_def is_Exception_def
      split: proc.splits prod.splits sum.splits pyerror.splits launch_error.splits if_splits)

lemma exit_status_exception: "is_Exception e \<Longrightarrow> exit_status (Inl e) = 1"
  by (cases e) (simp_all add: exit_status_def is_Exception_def)

subsection \<open>Which steps run a command\<close>

lemma kc_bind: "keeps_calls m \<Longrightarrow> (\<And>x. keeps_calls (k x)) \<Longrightarrow> keeps_calls (bind m k)"
  unfolding keeps_calls_def bind_def
  by (auto split: prod.splits sum.splits) (metis snd_conv)+

lemma kc_basic:
  "keeps_calls (pure x)"
  "keeps_calls (gets g)"
  "keeps_calls (set_fs f)"
  "keeps_calls (raise e)"
  "keeps_calls (logger_info s)"
  "keeps_calls (logger_warning s)"
  "keeps_calls (logger_error s)"
  by (simp_all add: keeps_calls_def io_defs)

lemma kc_os_mkdir: "keeps_calls (os_mkdir p)"
  unfolding os_mkdir_def
  by (intro kc_bind kc_basic) (auto simp: kc_basic split: option.splits node.splits)

lemma kc_path_mkdir: "keeps_calls (path_mkdir_exist_ok p)"
  using kc_os_mkdir [of p]
  unfolding path_mkdir_exist_ok_def keeps_calls_def
  by (auto split: prod.splits sum.splits if_splits) (metis snd_conv)+

lemma kc_init: "keeps_calls (RefSeqDataDownloader_init out tool)"
  unfolding RefSeqDataDownloader_init_def Let_def
  by (intro kc_bind kc_path_mkdir kc_basic)

lemma init_tool:
  "RefSeqDataDownloader_init out tool w = (Inr d, w') \<Longrightarrow> datasets_tool d = tool"
  unfolding RefSeqDataDownloader_init_def Let_def bind_def pure_def
  by (auto split: prod.splits sum.splits)

lemma check_calls:
  "calls (snd (check_datasets_tool e self w)) = calls w @ [[datasets_tool self, ''--version'']]"
  unfolding check_datasets_tool_def
  by (auto simp: io_defs subprocess_run_def Let_def
      split: proc.splits prod.splits sum.splits pyerror.splits launch_error.splits)

subsection \<open>Names and paths\<close>

lemma split_slash_plain: "plain_name s \<Longrightarrow> split_slash s = [s]"
  by (induction s) (auto simp: plain_name_def Let_def)

lemma os_path_plain: "plain_name s \<Longrightarrow> s \<noteq> [] \<Longrightarrow> s \<noteq> ''.'' \<Longrightarrow> os_path s = [s]"
  by (simp add: os_path_def split_slash_plain)

lemma plain_name_append [simp]: "plain_name (s @ t) = (plain_name s \<and> plain_name t)"
  by (auto simp: plain_name_def)

lemma plain_name_Cons [simp]: "plain_name (c # s) = (c \<noteq> CHR ''/'' \<and> plain_name s)"
  by (auto simp: plain_name_def)

lemma plain_name_Nil [simp]: "plain_name []"
  by (simp add: plain_name_def)

subsection \<open>Evaluating the walk\<close>

lemma rglob_walk_eval:
  "rglob_walk f pattern dir =
     [q \<leftarrow> map fst (scandir f dir). fnmatch (last q) pattern] @
     walk_dirs f pattern [c \<leftarrow> scandir f dir. snd c = Dir]"
  by (subst rglob_walk.simps) (simp add: walk_dirs_def)

lemma walk_dirs_Nil: "walk_dirs f pattern [] = []"
  by (simp add: walk_dirs_def)

lemma walk_dirs_Cons:
  "walk_dirs f pattern (c # cs) = rglob_walk f pattern (fst c) @ walk_dirs f pattern cs"
  by (simp add: walk_dirs_def)

lemmas walk_eval = rglob_walk_eval walk_dirs_Nil walk_dirs_Cons scandir_def

section \<open>The claims\<close>

subsection \<open>C4: a missing archive\<close>

text \<open>
  Claim C4. When the archive named by \<open>zip_filename\<close> does not exist, the
  extractor/organizer logs an error and returns \<open>False\<close>; the file system is the one it
  found (so no scratch directory is made) and no command is run: the world differs from the
  initial one only by the two log records.
\<close>

theorem missing_archive_fails_without_change:
  assumes "\<not> os_path_exists (fs w) (os_path zip_filename)"
  shows "extract_and_organize_files self zip_filename family w =
     (Inr False, w\<lparr>logged := logged w @
        [(INFO, ''Extracting and organizing files from {zip_filename}...''),
         (ERROR, ''Zip file {zip_filename} not found'')]\<rparr>)"
  using assms
  by (simp add: extract_and_organize_files_def io_defs)

text \<open>
  Claim C4, witness: in an empty working directory the archive of the family gobiidae is
  missing, and the call changes nothing but the log.
\<close>

theorem missing_archive_witness:
  "\<not> os_path_exists (fs empty_world) (os_path ''refseq_gobiidae_chromosome_data.zip'') \<and>
   extract_and_organize_files example_downloader ''refseq_gobiidae_chromosome_data.zip''
       ''gobiidae'' empty_world =
     (Inr False, \<lparr>fs = [], calls = [], logged =
        [(INFO, ''Extracting and organizing files from {zip_filename}...''),
         (ERROR, ''Zip file {zip_filename} not found'')]\<rparr>)"
proof -
  have h: "\<not> os_path_exists (fs empty_world) (os_path ''refseq_gobiidae_chromosome_data.zip'')"
    by (simp add: empty_world_def os_path_exists_def fs_lookup_def os_path_plain)
  show ?thesis
    using h missing_archive_fails_without_change [OF h, of example_downloader "''gobiidae''"]
    by (simp add: empty_world_def)
qed

subsection \<open>C9: both content kinds disabled\<close>

text \<open>
  Claim C9. Called with both content-kind flags disabled, the archive retriever does not
  reject the call. Its include parameter is \<^verbatim>\<open>cds,gff3\<close>, it behaves exactly as with
  both flags enabled, it runs the download command with that parameter, and its answer is
  the one of the command: the file name when the tool returns 0, \<^verbatim>\<open>None\<close> when it
  returns another code, the error when it cannot be started or its output does not decode.
\<close>

theorem both_kinds_disabled_requests_both:
  "include_param False False = ''cds,gff3'' \<and>
   download_genome_data e self family False False =
     download_genome_data e self family True True \<and>
   calls (snd (download_genome_data e self family False False w)) =
     calls w @ [[datasets_tool self, ''download'', ''genome'', ''taxon'', family,
                 ''--include'', ''cds,gff3'', ''--assembly-level'', ''chromosome'',
                 ''--filename'', ''refseq_'' @ family @ ''_chromosome_data.zip'']] \<and>
   fst (download_genome_data e self family False False w) =
     (case popen e (download_cmd self family False False) (fs w) of
        LaunchError errno \<Rightarrow> Inl (os_error errno)
      | Undecodable f' \<Rightarrow> Inl UnicodeDecodeError
      | Completed returncode out err f' \<Rightarrow>
          if returncode = 0 then Inr (Some (''refseq_'' @ family @ ''_chromosome_data.zip''))
          else Inr None)"
  by (auto simp add: include_param_def download_genome_data_def download_cmd_def zip_name_def
      io_defs subprocess_run_def Let_def
      split: proc.splits prod.splits sum.splits pyerror.splits launch_error.splits)

subsection \<open>C6: both skip flags on the command line\<close>

text \<open>
  Claim C6 says that with \<^verbatim>\<open>--no-cds\<close> and \<^verbatim>\<open>--no-gff\<close> the program exits
  before the external tool is ever invoked. It is not so: \<^verbatim>\<open>main\<close> checks the tool
  first, by running it with \<^verbatim>\<open>--version\<close>, and looks at the flags afterwards. With a
  tool that answers, the run has invoked it once.
\<close>

theorem both_skipped_invokes_version_check:
  "arg_no_cds both_skipped \<and> arg_no_gff both_skipped \<and>
   main version_only_tool both_skipped empty_world =
     (Inl (SystemExit 1),
      \<lparr>fs = [([''refseq_data''], Dir), ([''refseq_data'', ''cds_files''], Dir),
             ([''refseq_data'', ''gff_files''], Dir)],
       calls = [[''datasets'', ''--version'']],
       logged =
         [(INFO, ''NCBI datasets tool version: {result.stdout.strip()}''),
          (ERROR, ''At least one of CDS or GFF files must be downloaded'')]\<rparr>)"
  by (simp add: both_skipped_def version_only_tool_def empty_world_def main_def io_defs
      RefSeqDataDownloader_init_def path_mkdir_exist_ok_def os_mkdir_def check_datasets_tool_def
      subprocess_run_def os_path_exists_def os_path_isdir_def fs_lookup_def Let_def)

text \<open>
  Claim C6, amended. With both skip flags set the program ends with exit status 1, and the
  only command it can have run is the version check of the tool: no preview and no download
  is requested.
\<close>

theorem both_skipped_exits_after_version_check:
  assumes "arg_no_cds a" and "arg_no_gff a"
  shows "exit_status (fst (main e a w)) = 1 \<and>
         (calls (snd (main e a w)) = calls w \<or>
          calls (snd (main e a w)) = calls w @ [[arg_datasets_tool a, ''--version'']])"
proof (cases "RefSeqDataDownloader_init (arg_output_dir a) (arg_datasets_tool a) w")
  case (Pair r w1)
  have c1: "calls w1 = calls w"
    using kc_init [unfolded keeps_calls_def, rule_format, of _ _ w] Pair by (metis snd_conv)
  show ?thesis
  proof (cases r)
    case (Inl err)
    with Pair have "is_Exception err"
      using reo_init unfolding raises_exceptions_only_def by blast
    with Pair Inl c1 show ?thesis
      by (simp add: main_def bind_def exit_status_exception)
  next
    case (Inr d)
    have tool: "datasets_tool d = arg_datasets_tool a"
      using Pair Inr init_tool by blast
    obtain r2 w2 where chk: "check_datasets_tool e d w1 = (r2, w2)"
      by fastforce
    have c2: "calls w2 = calls w @ [[arg_datasets_tool a, ''--version'']]"
      using check_calls [of e d w1] chk c1 tool by simp
    show ?thesis
    proof (cases r2)
      case (Inl err)
      with chk have "is_Exception err"
        using reo_check unfolding raises_exceptions_only_def by blast
      with Pair Inr chk Inl c2 show ?thesis
        by (simp add: main_def bind_def exit_status_exception)
    next
      case (Inr ok)
      with Pair \<open>r = Inr d\<close> chk c2 assms show ?thesis
        by (simp add: main_def io_defs exit_status_def)
    qed
  qed
qed

text \<open>
  Claim C6, witness of the amended statement: the command line
  \<^verbatim>\<open>--family gobiidae --no-cds --no-gff\<close> with a working tool.
\<close>

theorem both_skipped_witness:
  "arg_no_cds both_skipped \<and> arg_no_gff both_skipped \<and>
   exit_status (fst (main version_only_tool both_skipped empty_world)) = 1 \<and>
   (calls (snd (main version_only_tool both_skipped empty_world)) = calls empty_world \<or>
    calls (snd (main version_only_tool both_skipped empty_world)) =
      calls empty_world @ [[arg_datasets_tool both_skipped, ''--version'']])"
proof -
  have h1: "arg_no_cds both_skipped" and h2: "arg_no_gff both_skipped"
    by (simp_all add: both_skipped_def)
  show ?thesis
    using h1 h2 both_skipped_exits_after_version_check [OF h1 h2, of version_only_tool empty_world]
    by simp
qed

subsection \<open>C5: failures of the availability probe\<close>

text \<open>
  Claim C5 says that every failure of the probe and every malformed output, also an output
  that holds the marker \<^verbatim>\<open>record_count\<close> and is not JSON, gives an empty result and
  never reaches the caller. The prober catches \<^verbatim>\<open>CalledProcessError\<close> only: when the
  output holds the marker, \<^verbatim>\<open>json.loads\<close> runs on it, and its
  \<^verbatim>\<open>JSONDecodeError\<close> leaves \<^verbatim>\<open>get_available_species\<close>.
\<close>

theorem marker_without_json_raises:
  "sublist ''record_count'' ''record_count'' \<and>
   get_available_species marker_not_json_tool example_downloader ''gobiidae'' empty_world =
     (Inl JSONDecodeError,
      \<lparr>fs = [],
       calls = [[''datasets'', ''download'', ''genome'', ''taxon'', ''gobiidae'',
                 ''--include'', ''cds,gff3'', ''--assembly-level'', ''chromosome'',
                 ''--preview'']],
       logged =
         [(INFO,
           ''Searching for available {family} species with chromosome-level assemblies...'')]\<rparr>)"
  by (simp add: get_available_species_def marker_not_json_tool_def example_downloader_def
      empty_world_def preview_cmd_def subprocess_run_def io_defs preview_decoder_def Let_def)

text \<open>
  Claim C5, amended. The tool has been started and what it printed is text. When it returns
  a code other than 0, or returns 0 with an output that does not hold the marker, or with
  an output that holds the marker and decodes to an object whose \<^verbatim>\<open>record_count\<close>
  (0 when the key is missing) is a number or a boolean that is not greater than 0, the
  prober returns the empty list and nothing is raised. It logs an error in the first case
  and a warning in the two others. The file system is the one the tool left and the preview
  is the only command run. (A tool that cannot be started, an output that is not text, an
  output with the marker that is not JSON or not an object, and a count that is not a number
  reach the caller as exceptions.)
\<close>

theorem probe_failure_is_no_data:
  assumes "popen e (preview_cmd self family) (fs w) = Completed returncode out err f'"
    and "returncode \<noteq> 0 \<or> \<not> sublist ''record_count'' out \<or>
         (\<exists>data record_count.
            json_loads e out = Some data \<and>
            dict_get data ''record_count'' (JInt 0) = Inr record_count \<and>
            py_gt_zero record_count = Inr False)"
  shows "get_available_species e self family w =
     (Inr [],
      \<lparr>fs = f', calls = calls w @ [preview_cmd self family],
       logged = logged w @
         (INFO, ''Searching for available {family} species with chromosome-level assemblies...'')
         # (if returncode \<noteq> 0 then [(ERROR, ''Error searching for {family} species: {e}'')]
            else if \<not> sublist ''record_count'' out
              then [(WARNING, ''No {family} genomes with chromosome-level assemblies found'')]
            else [(INFO, ''Found {record_count} {family} genomes with chromosome-level ''
                           @ ''assemblies and CDS/GFF annotations''),
                  (WARNING,
                   ''No {family} genomes with chromosome-level assemblies found'')])\<rparr>)"
  using assms
  by (auto simp add: get_available_species_def subprocess_run_def io_defs Let_def)

text \<open>
  Claim C5, witness of the amended statement: a tool that returns 1 (the error is logged), a
  tool that prints its version and no marker (the warning is logged), and a tool that
  reports \<^verbatim>\<open>record_count\<close> 0 (the count and the warning are logged).
\<close>

theorem probe_failure_witness:
  "get_available_species failing_tool example_downloader ''gobiidae'' empty_world =
     (Inr [],
      \<lparr>fs = [],
       calls = [[''datasets'', ''download'', ''genome'', ''taxon'', ''gobiidae'',
                 ''--include'', ''cds,gff3'', ''--assembly-level'', ''chromosome'',
                 ''--preview'']],
       logged =
         [(INFO,
           ''Searching for available {family} species with chromosome-level assemblies...''),
          (ERROR, ''Error searching for {family} species: {e}'')]\<rparr>) \<and>
   get_available_species version_only_tool example_downloader ''gobiidae'' empty_world =
     (Inr [],
      \<lparr>fs = [],
       calls = [[''datasets'', ''download'', ''genome'', ''taxon'', ''gobiidae'',
                 ''--include'', ''cds,gff3'', ''--assembly-level'', ''chromosome'',
                 ''--preview'']],
       logged =
         [(INFO,
           ''Searching for available {family} species with chromosome-level assemblies...''),
          (WARNING, ''No {family} genomes with chromosome-level assemblies found'')]\<rparr>) \<and>
   get_available_species zero_records_tool example_downloader ''gobiidae'' empty_world =
     (Inr [],
      \<lparr>fs = [],
       calls = [[''datasets'', ''download'', ''genome'', ''taxon'', ''gobiidae'',
                 ''--include'', ''cds,gff3'', ''--assembly-level'', ''chromosome'',
                 ''--preview'']],
       logged =
         [(INFO,
           ''Searching for available {family} species with chromosome-level assemblies...''),
          (INFO, ''Found {record_count} {family} genomes with chromosome-level ''
                   @ ''assemblies and CDS/GFF annotations''),
          (WARNING, ''No {family} genomes with chromosome-level assemblies found'')]\<rparr>)"
proof -
  have a1: "popen failing_tool (preview_cmd example_downloader ''gobiidae'') (fs empty_world) =
      Completed 1 [] ''Error: no genome data'' []"
    by (simp add: failing_tool_def empty_world_def)
  have a2: "(1::int) \<noteq> 0 \<or> \<not> sublist ''record_count'' [] \<or>
      (\<exists>data record_count.
         json_loads failing_tool [] = Some data \<and>
         dict_get data ''record_count'' (JInt 0) = Inr record_count \<and>
         py_gt_zero record_count = Inr False)"
    by simp
  have b1: "popen version_only_tool (preview_cmd example_downloader ''gobiidae'')
        (fs empty_world) = Completed 0 ''datasets version: 16.4.0'' [] []"
    by (simp add: version_only_tool_def empty_world_def)
  have nomark: "\<not> sublist ''record_count'' ''datasets version: 16.4.0''"
    by (simp add: sublist_code)
  then have b2: "(0::int) \<noteq> 0 \<or> \<not> sublist ''record_count'' ''datasets version: 16.4.0'' \<or>
      (\<exists>data record_count.
         json_loads version_only_tool ''datasets version: 16.4.0'' = Some data \<and>
         dict_get data ''record_count'' (JInt 0) = Inr record_count \<and>
         py_gt_zero record_count = Inr False)"
    by simp
  have c1: \<open>popen zero_records_tool (preview_cmd example_downloader ''gobiidae'')
        (fs empty_world) = Completed 0 ''{"record_count": 0}'' [] []\<close>
    by (simp add: zero_records_tool_def empty_world_def)
  have mark: \<open>sublist ''record_count'' ''{"record_count": 0}''\<close>
    by (simp add: sublist_code)
  have \<open>json_loads zero_records_tool ''{"record_count": 0}'' =
        Some (JObject [(''record_count'', JInt 0)]) \<and>
      dict_get (JObject [(''record_count'', JInt 0)]) ''record_count'' (JInt 0) =
        Inr (JInt 0) \<and>
      py_gt_zero (JInt 0) = Inr False\<close>
    by (simp add: zero_records_tool_def preview_decoder_def)
  then have c2: \<open>(0::int) \<noteq> 0 \<or> \<not> sublist ''record_count'' ''{"record_count": 0}'' \<or>
      (\<exists>data record_count.
         json_loads zero_records_tool ''{"record_count": 0}'' = Some data \<and>
         dict_get data ''record_count'' (JInt 0) = Inr record_count \<and>
         py_gt_zero record_count = Inr False)\<close>
    by blast
  show ?thesis
    using probe_failure_is_no_data [OF a1 a2] probe_failure_is_no_data [OF b1 b2]
      probe_failure_is_no_data [OF c1 c2] nomark mark
    by (simp add: empty_world_def preview_cmd_def example_downloader_def)
qed

subsection \<open>C7: the orchestrator\<close>

text \<open>
  Claim C7. The probe has returned a list and left the world \<open>w1\<close>, in which the
  preview is the one command run. The list is empty or holds the family alone, and it is
  empty whenever the preview reports a record count that is not greater than 0. When it is
  empty, the orchestrator returns \<open>False\<close> at once: the world is \<open>w1\<close> plus one
  error record, so neither the download nor the extractor ran. Otherwise it processes the
  family as the one taxon: it downloads once; when the download gives no file name, it
  returns \<open>False\<close> without running the extractor; when it gives one, it runs the
  extractor on it and returns what the extractor returns. In each case the final world is
  the one this step left plus the two log records of the outcome.
\<close>

theorem orchestrator_zero_or_one_taxon:
  assumes "get_available_species e self family w = (Inr species, w1)"
  shows "(species = [] \<or> species = [family]) \<and>
    calls w1 = calls w @ [preview_cmd self family] \<and>
    (\<forall>out err f' data record_count.
       popen e (preview_cmd self family) (fs w) = Completed 0 out err f' \<and>
       sublist ''record_count'' out \<and> json_loads e out = Some data \<and>
       dict_get data ''record_count'' (JInt 0) = Inr record_count \<and>
       py_gt_zero record_count = Inr False \<longrightarrow> species = []) \<and>
    (species = [] \<longrightarrow>
       download_family_data e self family include_cds include_gff w =
         (Inr False, w1\<lparr>logged := logged w1 @
            [(ERROR, ''No {family} species with chromosome-level assemblies found'')]\<rparr>)) \<and>
    (species = [family] \<longrightarrow>
       download_family_data e self family include_cds include_gff w =
         (case download_genome_data e self family include_cds include_gff
                 (w1\<lparr>logged := logged w1 @
                    [(INFO, ''Found {len(available_species)} {family} taxa with ''
                              @ ''chromosome-level assemblies''),
                     (INFO, ''Processing {taxon}...'')]\<rparr>) of
            (Inl err, w2) \<Rightarrow> (Inl err, w2)
          | (Inr None, w2) \<Rightarrow>
              (Inr False, w2\<lparr>logged := logged w2 @
                 [(ERROR, ''Failed to download data for {taxon}''),
                  (INFO,
                   ''Successfully processed {success_count}/{len(available_species)} taxa'')]\<rparr>)
          | (Inr (Some zip_filename), w2) \<Rightarrow>
              (case extract_and_organize_files self zip_filename family w2 of
                 (Inl err, w3) \<Rightarrow> (Inl err, w3)
               | (Inr ok, w3) \<Rightarrow>
                   (Inr ok, w3\<lparr>logged := logged w3 @
                      [if ok then (INFO, ''Successfully processed {taxon}'')
                       else (ERROR, ''Failed to extract files for {taxon}''),
                       (INFO, ''Successfully processed ''
                                @ ''{success_count}/{len(available_species)} taxa'')]\<rparr>))))"
proof -
  have sp: "species = [] \<or> species = [family]"
    using assms
    by (auto simp add: get_available_species_def subprocess_run_def io_defs Let_def
        split: proc.splits prod.splits sum.splits pyerror.splits if_splits option.splits)
  have cl: "calls w1 = calls w @ [preview_cmd self family]"
    using assms
    by (auto simp add: get_available_species_def subprocess_run_def io_defs Let_def
        split: proc.splits prod.splits sum.splits pyerror.splits if_splits option.splits)
  have zero: "species = []"
    if "popen e (preview_cmd self family) (fs w) = Completed 0 out err f'"
      and "sublist ''record_count'' out" and "json_loads e out = Some data"
      and "dict_get data ''record_count'' (JInt 0) = Inr record_count"
      and "py_gt_zero record_count = Inr False"
    for out err f' data record_count
    using assms that
    by (simp add: get_available_species_def subprocess_run_def io_defs Let_def)
  have dl: "z \<noteq> []"
    if "download_genome_data e self family include_cds include_gff w' = (Inr (Some z), w'')"
    for w' w'' z
    using that
    by (auto simp add: download_genome_data_def zip_name_def subprocess_run_def io_defs Let_def
        split: proc.splits prod.splits sum.splits pyerror.splits if_splits option.splits)
  have run: "(species = [] \<longrightarrow>
       download_family_data e self family include_cds include_gff w =
         (Inr False, w1\<lparr>logged := logged w1 @
            [(ERROR, ''No {family} species with chromosome-level assemblies found'')]\<rparr>)) \<and>
    (species = [family] \<longrightarrow>
       download_family_data e self family include_cds include_gff w =
         (case download_genome_data e self family include_cds include_gff
                 (w1\<lparr>logged := logged w1 @
                    [(INFO, ''Found {len(available_species)} {family} taxa with ''
                              @ ''chromosome-level assemblies''),
                     (INFO, ''Processing {taxon}...'')]\<rparr>) of
            (Inl err, w2) \<Rightarrow> (Inl err, w2)
          | (Inr None, w2) \<Rightarrow>
              (Inr False, w2\<lparr>logged := logged w2 @
                 [(ERROR, ''Failed to download data for {taxon}''),
                  (INFO,
                   ''Successfully processed {success_count}/{len(available_species)} taxa'')]\<rparr>)
          | (Inr (Some zip_filename), w2) \<Rightarrow>
              (case extract_and_organize_files self zip_filename family w2 of
                 (Inl err, w3) \<Rightarrow> (Inl err, w3)
               | (Inr ok, w3) \<Rightarrow>
                   (Inr ok, w3\<lparr>logged := logged w3 @
                      [if ok then (INFO, ''Successfully processed {taxon}'')
                       else (ERROR, ''Failed to extract files for {taxon}''),
                       (INFO, ''Successfully processed ''
                                @ ''{success_count}/{len(available_species)} taxa'')]\<rparr>))))"
    using assms dl
    by (auto simp add: download_family_data_def io_defs
        split: prod.splits sum.splits option.splits)
  show ?thesis
    using sp cl zero run by blast
qed

text \<open>
  Claim C7, witness: a tool that reports \<^verbatim>\<open>record_count\<close> 0 makes the orchestrator
  fail after the preview alone; a tool that reports two genomes and delivers the example
  archive makes it download, organise the two files and succeed.
\<close>

theorem orchestrator_witness:
  "download_family_data zero_records_tool example_downloader ''gobiidae'' True True empty_world =
     (Inr False,
      \<lparr>fs = [],
       calls = [[''datasets'', ''download'', ''genome'', ''taxon'', ''gobiidae'',
                 ''--include'', ''cds,gff3'', ''--assembly-level'', ''chromosome'',
                 ''--preview'']],
       logged =
         [(INFO,
           ''Searching for available {family} species with chromosome-level assemblies...''),
          (INFO, ''Found {record_count} {family} genomes with chromosome-level ''
                   @ ''assemblies and CDS/GFF annotations''),
          (WARNING, ''No {family} genomes with chromosome-level assemblies found''),
          (ERROR, ''No {family} species with chromosome-level assemblies found'')]\<rparr>) \<and>
   download_family_data datasets_mock example_downloader ''gobiidae'' True True ready_world =
     (Inr True,
      \<lparr>fs = [([''refseq_data''], Dir), ([''refseq_data'', ''cds_files''], Dir),
             ([''refseq_data'', ''gff_files''], Dir),
             ([''refseq_data'', ''cds_files'', ''speciesA_gobiidae.fna''], File ''>cds''),
             ([''refseq_data'', ''gff_files'', ''sub_gobiidae.gff''],
              File ''##gff-version 3'')],
       calls = [[''datasets'', ''download'', ''genome'', ''taxon'', ''gobiidae'',
                 ''--include'', ''cds,gff3'', ''--assembly-level'', ''chromosome'',
                 ''--preview''],
                [''datasets'', ''download'', ''genome'', ''taxon'', ''gobiidae'',
                 ''--include'', ''cds,gff3'', ''--assembly-level'', ''chromosome'',
                 ''--filename'', ''refseq_gobiidae_chromosome_data.zip'']],
       logged =
         [(INFO,
           ''Searching for available {family} species with chromosome-level assemblies...''),
          (INFO, ''Found {record_count} {family} genomes with chromosome-level ''
                   @ ''assemblies and CDS/GFF annotations''),
          (INFO, ''Found {len(available_species)} {family} taxa with ''
                   @ ''chromosome-level assemblies''),
          (INFO, ''Processing {taxon}...''),
          (INFO, ''Downloading genome data for {family} (chromosome-level assemblies only)...''),
          (INFO, ''Running command: {' '.join(cmd)}''),
          (INFO, ''Download completed for {family}''),
          (INFO, ''Extracting and organizing files from {zip_filename}...''),
          (INFO, ''Moved CDS file: {new_name}''),
          (INFO, ''Moved GFF file: {new_name}''),
          (INFO, ''Successfully processed {taxon}''),
          (INFO, ''Successfully processed {success_count}/{len(available_species)} taxa'')]\<rparr>)"
proof -
  let ?preview = "[''datasets'', ''download'', ''genome'', ''taxon'', ''gobiidae'',
                   ''--include'', ''cds,gff3'', ''--assembly-level'', ''chromosome'',
                   ''--preview'']"
  let ?searching =
    "(INFO, ''Searching for available {family} species with chromosome-level assemblies...'')"
  let ?found =
    "(INFO, ''Found {record_count} {family} genomes with chromosome-level ''
              @ ''assemblies and CDS/GFF annotations'')"
  let ?w1 = "\<lparr>fs = [], calls = [?preview],
       logged = [?searching, ?found,
          (WARNING, ''No {family} genomes with chromosome-level assemblies found'')]\<rparr>"
  let ?w2 = "\<lparr>fs = fs ready_world, calls = [?preview], logged = [?searching, ?found]\<rparr>"
  have h1: "get_available_species zero_records_tool example_downloader ''gobiidae'' empty_world =
      (Inr [], ?w1)"
    by (simp add: get_available_species_def zero_records_tool_def example_downloader_def
        empty_world_def preview_cmd_def subprocess_run_def io_defs preview_decoder_def Let_def
        sublist_code)
  have h2: "get_available_species datasets_mock example_downloader ''gobiidae'' ready_world =
      (Inr [''gobiidae''], ?w2)"
    by (simp add: get_available_species_def datasets_mock_def example_downloader_def
        ready_world_def preview_cmd_def subprocess_run_def io_defs preview_decoder_def Let_def
        sublist_code)
  show ?thesis
    using orchestrator_zero_or_one_taxon [OF h1, of True True]
      orchestrator_zero_or_one_taxon [OF h2, of True True]
    by (simp add: download_genome_data_def datasets_mock_def example_downloader_def
        ready_world_def download_cmd_def include_param_def zip_name_def subprocess_run_def
        example_archive_def organizer_defs prim_defs fs_defs io_defs os_makedirs.simps
        os_path_def walk_eval AList.delete_eq Let_def)
qed

end
